theory Spec2Isabelle
  imports Main "HOL-Library.Word"
begin

section \<open>Ingress deployment of the crane agent (golang/pkg/crane/k8s/ingress.go)\<close>

subsection \<open>Library functions the file calls\<close>

text \<open>
  Go's \<^verbatim>\<open>strings.Join(elems, sep)\<close>: the empty string for no element, the element
  itself for one, otherwise the elements with \<open>sep\<close> between neighbours.
\<close>

fun strings_Join :: "string list \<Rightarrow> string \<Rightarrow> string" where
  "strings_Join [] sep = []"
| "strings_Join [x] sep = x"
| "strings_Join (x # y # ys) sep = x @ sep @ strings_Join (y # ys) sep"

text \<open>
  Modelled from the spec: \<^verbatim>\<open>util.JoinV\<close> (golang/internal/util) is called by
  \<^verbatim>\<open>deployIngress\<close> and \<^verbatim>\<open>getTLSConfig\<close> and its source is not part of the files at hand.
  The specification describes its results as the items joined with the separator
  (``joined with a dot separator as \<open>ingressName + "." + root\<close>'', secret name
  \<open>{containerName}-tls\<close>), so it is the variadic form of \<open>strings.Join\<close>.
\<close>

definition JoinV :: "string \<Rightarrow> string list \<Rightarrow> string" where
  "JoinV separator items = strings_Join items separator"

text \<open>
  \<^verbatim>\<open>maps.Copy(dst, src)\<close> of golang.org/x/exp/maps stores every key/value pair of
  \<open>src\<close> in \<open>dst\<close>. A Go map is a finite partial function; a nil map reads as the empty
  one.
\<close>

definition maps_Copy :: "(string \<rightharpoonup> string) \<Rightarrow> (string \<rightharpoonup> string) \<Rightarrow> (string \<rightharpoonup> string)" where
  "maps_Copy dst src = dst ++ src"

subsection \<open>Data\<close>

definition clusterIssuerDefault :: string where
  "clusterIssuerDefault = ''letsencrypt-prod''"

text \<open>The fields of \<^verbatim>\<open>config.Configuration\<close> that the file reads.\<close>

record Configuration =
  IngressRootDomain :: string
  FieldManagerName :: string
  ForceOnConflicts :: bool

record DeployIngressOptions =
  namespace :: string
  containerName :: string
  ingressName :: string
  ingressHost :: string
  uploadLimit :: string
  ports :: "32 word list"
  tls :: bool
  proxyHeaders :: bool
  allowedHeaders :: "string list"
  labels :: "string \<rightharpoonup> string"
  annotations :: "string \<rightharpoonup> string"
  traefik :: bool

text \<open>The apply configuration that is sent to the cluster (k8s.io/client-go, networking/v1).\<close>

datatype PathType = PathTypeExact | PathTypePrefix | PathTypeImplementationSpecific

record IngressServiceBackend =
  ServiceName :: string
  ServicePortNumber :: "32 word"

record HTTPIngressPath =
  Path :: string
  PathKind :: PathType
  Backend :: IngressServiceBackend

record IngressRule =
  Host :: string
  HTTPPaths :: "HTTPIngressPath list"

record IngressTLS =
  Hosts :: "string list"
  SecretName :: string

record IngressSpec =
  Rules :: "IngressRule list"
  TLS :: "IngressTLS list"

record IngressApplyConfiguration =
  Kind :: string
  APIVersion :: string
  MetaName :: string
  MetaAnnotations :: "string \<rightharpoonup> string"
  MetaLabels :: "string \<rightharpoonup> string"
  Spec :: IngressSpec

record ApplyOptions =
  FieldManager :: string
  Force :: bool

text \<open>The object the cluster answers with; only its name is read.\<close>

record Ingress =
  ObjectMetaName :: string

text \<open>
  Go errors. \<open>ErrorString\<close> is an error made in this file by \<^verbatim>\<open>errors.New\<close> or
  \<^verbatim>\<open>fmt.Errorf\<close>, with its message; \<open>ClientError\<close> is an error handed back by the
  Kubernetes client (\<^verbatim>\<open>GetClientSet\<close>, \<^verbatim>\<open>Apply\<close>, \<^verbatim>\<open>Delete\<close>).
\<close>

datatype error = ErrorString string | ClientError string

text \<open>
  The cluster boundary. \<^verbatim>\<open>networking.IngressInterface\<close> is the handle to the ingress
  store of one namespace; \<open>Apply\<close> answers with a pointer (that may be nil) and an
  error (that may be nil). The client set maps a namespace to its handle
  (\<^verbatim>\<open>clientset.NetworkingV1().Ingresses(namespace)\<close>), and \<^verbatim>\<open>Client.GetClientSet\<close>
  answers with the client set or with an error.
\<close>

record IngressInterface =
  Apply :: "IngressApplyConfiguration \<Rightarrow> ApplyOptions \<Rightarrow> Ingress option \<times> error option"
  Delete :: "string \<Rightarrow> error option"

record Client =
  GetClientSet :: "error + (string \<Rightarrow> IngressInterface)"

text \<open>The facade object (its context is not modelled).\<close>

record ingress =
  status :: string
  client :: Client
  appConfig :: Configuration

text \<open>
  How a call ends: it returns, or it panics (an explicit \<^verbatim>\<open>panic(err)\<close>, or the runtime's
  nil dereference). Nothing in the file recovers from a panic, so a panic ends the
  hosting process.
\<close>

datatype panic = PanicError error | NilDereference

datatype 'a outcome = Return 'a | Panic panic

text \<open>What a call does to the outside, in order.\<close>

datatype event =
    GetClientSetCall
  | LogError error
  | ApplyCall string IngressApplyConfiguration ApplyOptions
  | DeleteCall string string

text \<open>
  The calls that go out to the remote API: the acquisition of the client, apply and
  delete. A log line stays in the process.
\<close>

fun isNetworkCall :: "event \<Rightarrow> bool" where
  "isNetworkCall GetClientSetCall = True"
| "isNetworkCall (ApplyCall ns cfg ao) = True"
| "isNetworkCall (DeleteCall ns n) = True"
| "isNetworkCall (LogError e) = False"

fun appliedConfigs :: "event list \<Rightarrow> IngressApplyConfiguration list" where
  "appliedConfigs [] = []"
| "appliedConfigs (ApplyCall ns cfg ao # evs) = cfg # appliedConfigs evs"
| "appliedConfigs (ev # evs) = appliedConfigs evs"

subsection \<open>The functions of ingress.go\<close>

definition getIngressClient :: "ingress \<Rightarrow> string \<Rightarrow> error + IngressInterface" where
  "getIngressClient ing ns =
     (case GetClientSet (client ing) of
        Inl err \<Rightarrow> Inl err
      | Inr clientset \<Rightarrow> Inr (clientset ns))"

definition getTLSConfig :: "string \<Rightarrow> string \<Rightarrow> bool \<Rightarrow> IngressTLS option" where
  "getTLSConfig ingressPath cName enabled =
     (if enabled
      then Some \<lparr>Hosts = [ingressPath], SecretName = JoinV ''-'' [cName, ''tls'']\<rparr>
      else None)"

definition getTraefikHeadersAnnotations :: "DeployIngressOptions \<Rightarrow> (string \<rightharpoonup> string)" where
  "getTraefikHeadersAnnotations opts =
     (let traefikClass = ''traefik'';
          annotations0 = Map.empty(''kubernetes.io/ingress.class'' \<mapsto> traefikClass)
      in if tls opts
         then annotations0
                (''traefik.ingress.kubernetes.io/router.entrypoints'' \<mapsto> ''web,websecure'',
                 ''acme.cert-manager.io/http01-ingress-class'' \<mapsto> traefikClass,
                 ''traefik.ingress.kubernetes.io/router.tls'' \<mapsto> ''true'',
                 ''kubernetes.io/tls-acme'' \<mapsto> ''true'',
                 ''cert-manager.io/cluster-issuer'' \<mapsto> clusterIssuerDefault)
         else annotations0
                (''traefik.ingress.kubernetes.io/router.entrypoints'' \<mapsto> ''web''))"

definition extraHeaders :: "string list" where
  "extraHeaders =
     [''X-Forwarded-For'', ''X-Forwarded-Host'', ''X-Forwarded-Server'', ''X-Real-IP'',
      ''X-Requested-With'']"

definition getNginxHeadersAnnotations :: "DeployIngressOptions \<Rightarrow> (string \<rightharpoonup> string)" where
  "getNginxHeadersAnnotations opts =
     (let annotations0 =
            (if tls opts
             then Map.empty
                    (''kubernetes.io/tls-acme'' \<mapsto> ''true'',
                     ''cert-manager.io/cluster-issuer'' \<mapsto> clusterIssuerDefault)
             else Map.empty);
          annotations1 = annotations0(''kubernetes.io/ingress.class'' \<mapsto> ''nginx'');
          headers0 = (if length (allowedHeaders opts) > 0 then allowedHeaders opts else []);
          headers1 = (if proxyHeaders opts then headers0 @ extraHeaders else headers0);
          annotations2 =
            (if proxyHeaders opts
             then annotations1
                    (''nginx.ingress.kubernetes.io/enable-cors'' \<mapsto> ''true'',
                     ''nginx.ingress.kubernetes.io/proxy-buffering'' \<mapsto> ''on'',
                     ''nginx.ingress.kubernetes.io/proxy-buffer-size'' \<mapsto> ''256k'')
             else annotations1);
          annotations3 =
            (if length headers1 > 0
             then annotations2
                    (''nginx.ingress.kubernetes.io/cors-allow-headers'' \<mapsto>
                       strings_Join headers1 '', '')
             else annotations2)
      in if uploadLimit opts \<noteq> []
         then annotations3(''nginx.ingress.kubernetes.io/proxy-body-size'' \<mapsto> uploadLimit opts)
         else annotations3)"

definition getIngressAnnotations :: "DeployIngressOptions \<Rightarrow> (string \<rightharpoonup> string)" where
  "getIngressAnnotations opts =
     (if traefik opts then getTraefikHeadersAnnotations opts
      else getNginxHeadersAnnotations opts)"

text \<open>
  The pieces of \<^verbatim>\<open>deployIngress\<close>, named after its local variables:
  \<open>ingressRoot\<close> (lines 60 to 67, an error when no domain is at hand), \<open>ingressPath\<close>
  (lines 69 to 74), \<open>spec\<close> (lines 76 to 94), \<open>annot\<close> (lines 96 and 97), \<open>applyConfig\<close>
  (lines 99 to 108).
\<close>

definition ingressRoot :: "Configuration \<Rightarrow> DeployIngressOptions \<Rightarrow> error + string" where
  "ingressRoot cfg opts =
     (if ingressHost opts \<noteq> [] then Inr (ingressHost opts)
      else if IngressRootDomain cfg \<noteq> [] then Inr (IngressRootDomain cfg)
      else Inl (ErrorString ''no ingress domain provided in deploy request or configuration''))"

definition ingressPath :: "DeployIngressOptions \<Rightarrow> string \<Rightarrow> string" where
  "ingressPath opts root =
     (if ingressName opts \<noteq> [] then JoinV ''.'' [ingressName opts, root]
      else JoinV ''.'' [containerName opts, namespace opts, root])"

definition ingressSpec :: "DeployIngressOptions \<Rightarrow> string \<Rightarrow> IngressSpec" where
  "ingressSpec opts path =
     (let spec0 =
            \<lparr>Rules =
               [\<lparr>Host = path,
                 HTTPPaths =
                   [\<lparr>Path = ''/'',
                     PathKind = PathTypeImplementationSpecific,
                     Backend =
                       \<lparr>ServiceName = containerName opts,
                        ServicePortNumber = ports opts ! 0\<rparr>\<rparr>]\<rparr>],
              TLS = []\<rparr>
      in case getTLSConfig path (containerName opts) (tls opts) of
           Some tlsConf \<Rightarrow> spec0\<lparr>TLS := TLS spec0 @ [tlsConf]\<rparr>
         | None \<Rightarrow> spec0)"

definition annot :: "DeployIngressOptions \<Rightarrow> (string \<rightharpoonup> string)" where
  "annot opts = maps_Copy (getIngressAnnotations opts) (annotations opts)"

definition applyConfig :: "DeployIngressOptions \<Rightarrow> string \<Rightarrow> IngressApplyConfiguration" where
  "applyConfig opts path =
     \<lparr>Kind = ''Ingress'',
      APIVersion = ''networking.k8s.io/v1'',
      MetaName = containerName opts,
      MetaAnnotations = annot opts,
      MetaLabels = maps_Copy Map.empty (labels opts),
      Spec = ingressSpec opts path\<rparr>"

text \<open>
  \<^verbatim>\<open>deployIngress\<close>. The options are a pointer, \<open>None\<close> is nil. After a failed
  \<^verbatim>\<open>getIngressClient\<close> the error is logged and the function goes on with a nil handle;
  the later \<^verbatim>\<open>client.Apply\<close> on it is a nil dereference. When \<open>Apply\<close> answers with an
  error, the log line reads the name of the answered object, a nil dereference when the
  answered pointer is nil.
\<close>

definition deployIngress ::
  "ingress \<Rightarrow> DeployIngressOptions option \<Rightarrow> error option outcome \<times> event list" where
  "deployIngress ing options =
     (case options of
        None \<Rightarrow> (Return (Some (ErrorString ''ingress deployment is nil'')), [])
      | Some opts \<Rightarrow>
          (let acquired = getIngressClient ing (namespace opts);
               tr = GetClientSetCall #
                      (case acquired of Inl err \<Rightarrow> [LogError err] | Inr c \<Rightarrow> [])
           in if length (ports opts) = 0
              then (Return (Some (ErrorString ''empty ports, nothing to expose'')), tr)
              else
                (case ingressRoot (appConfig ing) opts of
                   Inl err \<Rightarrow> (Return (Some err), tr)
                 | Inr root \<Rightarrow>
                     (let cfg = applyConfig opts (ingressPath opts root);
                          ao = \<lparr>FieldManager = FieldManagerName (appConfig ing),
                                Force = ForceOnConflicts (appConfig ing)\<rparr>
                      in case acquired of
                           Inl err \<Rightarrow> (Panic NilDereference, tr)
                         | Inr c \<Rightarrow>
                             (case Apply c cfg ao of
                                (res, None) \<Rightarrow>
                                  (Return None, tr @ [ApplyCall (namespace opts) cfg ao])
                              | (None, Some err) \<Rightarrow>
                                  (Panic NilDereference,
                                   tr @ [ApplyCall (namespace opts) cfg ao])
                              | (Some i, Some err) \<Rightarrow>
                                  (Return (Some err),
                                   tr @ [ApplyCall (namespace opts) cfg ao, LogError err]))))))"

definition deleteIngress :: "ingress \<Rightarrow> string \<Rightarrow> string \<Rightarrow> error option outcome \<times> event list" where
  "deleteIngress ing ns name =
     (case getIngressClient ing ns of
        Inl err \<Rightarrow> (Panic (PanicError err), [GetClientSetCall])
      | Inr c \<Rightarrow> (Return (Delete c name), [GetClientSetCall, DeleteCall ns name]))"

subsection \<open>Concrete inputs\<close>

text \<open>
  A configuration with a root domain, a deployment request for the Standard (nginx)
  flavor with TLS, proxy headers, one allowed header and an issuer override, a store
  that accepts every request, and two facades: one whose client set can be acquired and
  one whose acquisition fails.
\<close>

definition exampleConfig :: Configuration where
  "exampleConfig =
     \<lparr>IngressRootDomain = ''apps.example.com'', FieldManagerName = ''crane'',
      ForceOnConflicts = True\<rparr>"

definition exampleOptions :: DeployIngressOptions where
  "exampleOptions =
     \<lparr>namespace = ''prod'', containerName = ''web'', ingressName = [], ingressHost = [],
      uploadLimit = [], ports = [80], tls = True, proxyHeaders = True,
      allowedHeaders = [''X-Custom''], labels = Map.empty,
      annotations = Map.empty(''cert-manager.io/cluster-issuer'' \<mapsto> ''internal-ca''),
      traefik = False\<rparr>"

definition acceptingStore :: IngressInterface where
  "acceptingStore =
     \<lparr>Apply = (\<lambda>cfg ao. (Some \<lparr>ObjectMetaName = MetaName cfg\<rparr>, None)),
      Delete = (\<lambda>name. None)\<rparr>"

definition reachableIngress :: ingress where
  "reachableIngress =
     \<lparr>status = [], client = \<lparr>GetClientSet = Inr (\<lambda>ns. acceptingStore)\<rparr>,
      appConfig = exampleConfig\<rparr>"

definition unreachableIngress :: ingress where
  "unreachableIngress =
     \<lparr>status = [], client = \<lparr>GetClientSet = Inl (ClientError ''connection refused'')\<rparr>,
      appConfig = exampleConfig\<rparr>"

lemmas fixtures =
  exampleConfig_def exampleOptions_def acceptingStore_def reachableIngress_def
  unreachableIngress_def

section \<open>Properties\<close>

subsection \<open>What deployIngress and deleteIngress do at the cluster boundary\<close>

text \<open>
  With a client at hand, a port and a root domain, \<^verbatim>\<open>deployIngress\<close> sends exactly one
  apply configuration, the one assembled from the options and the resolved host.
\<close>

lemma deployIngress_applied:
  assumes "GetClientSet (client ing) = Inr cs" and "ports opts \<noteq> []"
    and "ingressRoot (appConfig ing) opts = Inr root"
  shows "appliedConfigs (snd (deployIngress ing (Some opts))) =
           [applyConfig opts (ingressPath opts root)]"
  using assms
  by (simp add: deployIngress_def getIngressClient_def Let_def split: prod.splits option.splits)

text \<open>Without a root domain nothing is sent and an error is returned.\<close>

lemma deployIngress_no_root:
  assumes "ingressRoot (appConfig ing) opts = Inl err"
  shows "appliedConfigs (snd (deployIngress ing (Some opts))) = [] \<and>
         fst (deployIngress ing (Some opts)) =
           Return (Some (if length (ports opts) = 0
                         then ErrorString ''empty ports, nothing to expose'' else err))"
  using assms
  by (simp add: deployIngress_def getIngressClient_def Let_def split: sum.splits)

text \<open>
  A failed acquisition of the client: \<^verbatim>\<open>deleteIngress\<close> panics with the error, and
  \<^verbatim>\<open>deployIngress\<close>, once past its two configuration checks, panics on the nil handle.
\<close>

lemma deleteIngress_no_client:
  "GetClientSet (client ing) = Inl err \<Longrightarrow>
     deleteIngress ing ns name = (Panic (PanicError err), [GetClientSetCall])"
  by (simp add: deleteIngress_def getIngressClient_def)

lemma deployIngress_no_client:
  "GetClientSet (client ing) = Inl err \<Longrightarrow> ports opts \<noteq> [] \<Longrightarrow>
   ingressRoot (appConfig ing) opts = Inr root \<Longrightarrow>
     deployIngress ing (Some opts) = (Panic NilDereference, [GetClientSetCall, LogError err])"
  by (simp add: deployIngress_def getIngressClient_def Let_def)

lemma applyConfig_hosts: "map Host (Rules (Spec (applyConfig opts p))) = [p]"
  by (simp add: applyConfig_def ingressSpec_def getTLSConfig_def Let_def)

lemma map_add_twice: "(G ++ U) ++ U = G ++ U"
  by (rule ext) (simp add: map_add_def split: option.split)

subsection \<open>The claims\<close>

text \<open>
  C1. On a failed client acquisition both \<^verbatim>\<open>deployIngress\<close> and \<^verbatim>\<open>deleteIngress\<close>
  should hand a recoverable error back to the caller. The code does not: with the client
  set unavailable, \<^verbatim>\<open>deleteIngress\<close> ends in \<^verbatim>\<open>panic(err)\<close>, and \<^verbatim>\<open>deployIngress\<close>
  logs the error, goes on as if it held a handle, and ends in the nil dereference of
  \<^verbatim>\<open>client.Apply\<close>.
\<close>

theorem acquisition_failure_panics:
  "deleteIngress unreachableIngress ''prod'' ''web'' =
     (Panic (PanicError (ClientError ''connection refused'')), [GetClientSetCall]) \<and>
   deployIngress unreachableIngress (Some exampleOptions) =
     (Panic NilDereference, [GetClientSetCall, LogError (ClientError ''connection refused'')])"
  by (simp add: deleteIngress_def deployIngress_def getIngressClient_def ingressRoot_def
      fixtures)

text \<open>
  C2, as stated: for options with an empty port list \<^verbatim>\<open>deployIngress\<close> returns before
  any call to the cluster is attempted. It does not: the client is acquired at line 51,
  before the port check at line 56, so the request below (no ports) still makes that one
  call.
\<close>

theorem empty_ports_acquires_client:
  "ports (exampleOptions\<lparr>ports := []\<rparr>) = [] \<and>
   snd (deployIngress reachableIngress (Some (exampleOptions\<lparr>ports := []\<rparr>))) =
     [GetClientSetCall] \<and>
   filter isNetworkCall
     (snd (deployIngress reachableIngress (Some (exampleOptions\<lparr>ports := []\<rparr>)))) \<noteq> []"
  by (simp add: deployIngress_def getIngressClient_def fixtures)

text \<open>
  C2, amended: for options with an empty port list \<^verbatim>\<open>deployIngress\<close> returns the
  configuration error ``empty ports, nothing to expose'', no apply configuration is
  produced or sent, and the only call to the remote API before it returns is the
  acquisition of the client, which comes before the port check; no apply and no delete
  is attempted.
\<close>

theorem empty_ports_no_apply:
  assumes "ports opts = []"
  shows "fst (deployIngress ing (Some opts)) =
           Return (Some (ErrorString ''empty ports, nothing to expose'')) \<and>
         appliedConfigs (snd (deployIngress ing (Some opts))) = [] \<and>
         filter isNetworkCall (snd (deployIngress ing (Some opts))) = [GetClientSetCall]"
  using assms
  by (simp add: deployIngress_def getIngressClient_def Let_def split: sum.splits)

theorem empty_ports_no_apply_witness:
  "ports (exampleOptions\<lparr>ports := []\<rparr>) = [] \<and>
   fst (deployIngress reachableIngress (Some (exampleOptions\<lparr>ports := []\<rparr>))) =
     Return (Some (ErrorString ''empty ports, nothing to expose'')) \<and>
   appliedConfigs (snd (deployIngress reachableIngress (Some (exampleOptions\<lparr>ports := []\<rparr>)))) =
     [] \<and>
   filter isNetworkCall
     (snd (deployIngress reachableIngress (Some (exampleOptions\<lparr>ports := []\<rparr>)))) =
     [GetClientSetCall]"
  using empty_ports_no_apply [where opts = "exampleOptions\<lparr>ports := []\<rparr>"
      and ing = reachableIngress]
  by (simp add: exampleOptions_def)

text \<open>
  C3, as stated: under the Standard flavor with \<open>proxyHeaders\<close> set and a non-empty
  \<open>allowedHeaders\<close> the body-size annotation is always present with a fixed value. It is
  not: the request below (TLS, proxy headers, the allowed header X-Custom, no upload
  limit) gets no body-size annotation.
\<close>

theorem nginx_body_size_absent:
  "\<not> traefik exampleOptions \<and> proxyHeaders exampleOptions \<and>
   allowedHeaders exampleOptions \<noteq> [] \<and>
   getIngressAnnotations exampleOptions ''nginx.ingress.kubernetes.io/proxy-body-size'' = None \<and>
   getNginxHeadersAnnotations exampleOptions ''nginx.ingress.kubernetes.io/proxy-body-size'' = None"
  by (simp add: exampleOptions_def getIngressAnnotations_def getNginxHeadersAnnotations_def
      Let_def)

text \<open>
  C3, amended: under the Standard flavor with \<open>proxyHeaders\<close> set and a non-empty
  \<open>allowedHeaders\<close>, the generated CORS-headers annotation is the allowed headers
  followed by the five forwarding headers, joined with ", "; enable-cors is "true",
  proxy buffering is "on" with buffer size "256k"; and the body-size annotation is present
  exactly when \<open>uploadLimit\<close> is non-empty, its value being \<open>uploadLimit\<close> itself.
\<close>

theorem nginx_proxy_headers:
  assumes "\<not> traefik opts" and "proxyHeaders opts" and "allowedHeaders opts \<noteq> []"
  shows "getIngressAnnotations opts ''nginx.ingress.kubernetes.io/cors-allow-headers'' =
           Some (strings_Join
                   (allowedHeaders opts @
                    [''X-Forwarded-For'', ''X-Forwarded-Host'', ''X-Forwarded-Server'',
                     ''X-Real-IP'', ''X-Requested-With''])
                   '', '') \<and>
         getIngressAnnotations opts ''nginx.ingress.kubernetes.io/enable-cors'' = Some ''true'' \<and>
         getIngressAnnotations opts ''nginx.ingress.kubernetes.io/proxy-buffering'' = Some ''on'' \<and>
         getIngressAnnotations opts ''nginx.ingress.kubernetes.io/proxy-buffer-size'' =
           Some ''256k'' \<and>
         getIngressAnnotations opts ''nginx.ingress.kubernetes.io/proxy-body-size'' =
           (if uploadLimit opts \<noteq> [] then Some (uploadLimit opts) else None)"
  using assms
  by (simp add: getIngressAnnotations_def getNginxHeadersAnnotations_def extraHeaders_def
      Let_def)

theorem nginx_proxy_headers_witness:
  "\<not> traefik (exampleOptions\<lparr>uploadLimit := ''8m''\<rparr>) \<and>
   proxyHeaders (exampleOptions\<lparr>uploadLimit := ''8m''\<rparr>) \<and>
   allowedHeaders (exampleOptions\<lparr>uploadLimit := ''8m''\<rparr>) \<noteq> [] \<and>
   getIngressAnnotations (exampleOptions\<lparr>uploadLimit := ''8m''\<rparr>)
     ''nginx.ingress.kubernetes.io/cors-allow-headers'' =
     Some ''X-Custom, X-Forwarded-For, X-Forwarded-Host, X-Forwarded-Server, X-Real-IP, X-Requested-With'' \<and>
   getIngressAnnotations (exampleOptions\<lparr>uploadLimit := ''8m''\<rparr>)
     ''nginx.ingress.kubernetes.io/proxy-body-size'' = Some ''8m''"
  using nginx_proxy_headers [of "exampleOptions\<lparr>uploadLimit := ''8m''\<rparr>"]
  by (simp add: exampleOptions_def)

text \<open>
  C4. Given a root domain, the resolved host is \<open>ingressName.root\<close> when \<open>ingressName\<close>
  is set, whatever the container name and the namespace are, and
  \<open>containerName.namespace.root\<close> otherwise; it is the host of the one rule of the
  configuration that \<^verbatim>\<open>deployIngress\<close> sends.
\<close>

theorem resolved_host:
  "ingressPath opts root =
     (if ingressName opts \<noteq> [] then ingressName opts @ ''.'' @ root
      else containerName opts @ ''.'' @ namespace opts @ ''.'' @ root) \<and>
   (GetClientSet (client ing) = Inr cs \<and> ports opts \<noteq> [] \<and>
    ingressRoot (appConfig ing) opts = Inr root \<longrightarrow>
      map (\<lambda>c. map Host (Rules (Spec c))) (appliedConfigs (snd (deployIngress ing (Some opts)))) =
        [[if ingressName opts \<noteq> [] then ingressName opts @ ''.'' @ root
          else containerName opts @ ''.'' @ namespace opts @ ''.'' @ root]])"
proof -
  have path: "ingressPath opts root =
     (if ingressName opts \<noteq> [] then ingressName opts @ ''.'' @ root
      else containerName opts @ ''.'' @ namespace opts @ ''.'' @ root)"
    by (simp add: ingressPath_def JoinV_def)
  show ?thesis
    using path applyConfig_hosts deployIngress_applied [of ing cs opts root] by simp
qed

theorem resolved_host_witness:
  "GetClientSet (client reachableIngress) = Inr (\<lambda>ns. acceptingStore) \<and>
   ports exampleOptions \<noteq> [] \<and>
   ingressRoot (appConfig reachableIngress) exampleOptions = Inr ''apps.example.com'' \<and>
   ingressPath (exampleOptions\<lparr>ingressName := ''shop''\<rparr>) ''apps.example.com'' =
     ''shop.apps.example.com'' \<and>
   map (\<lambda>c. map Host (Rules (Spec c)))
     (appliedConfigs (snd (deployIngress reachableIngress (Some exampleOptions)))) =
     [[''web.prod.apps.example.com'']]"
  using resolved_host [where opts = exampleOptions and root = "''apps.example.com''"
      and ing = reachableIngress and cs = "\<lambda>ns. acceptingStore"]
    resolved_host [where opts = "exampleOptions\<lparr>ingressName := ''shop''\<rparr>"
      and root = "''apps.example.com''"]
  by (simp add: fixtures ingressRoot_def)

text \<open>
  C5. The root domain is chosen by priority: a non-empty \<open>ingressHost\<close> is the root as it
  is, whether or not a root domain is configured; otherwise a non-empty configured root
  domain is the root; otherwise \<^verbatim>\<open>deployIngress\<close> returns a configuration error and
  sends no configuration. The chosen root is the one the host sent to the cluster is
  built from.
\<close>

theorem root_domain_priority:
  "(ingressHost opts \<noteq> [] \<longrightarrow> ingressRoot (appConfig ing) opts = Inr (ingressHost opts)) \<and>
   (ingressHost opts = [] \<and> IngressRootDomain (appConfig ing) \<noteq> [] \<longrightarrow>
      ingressRoot (appConfig ing) opts = Inr (IngressRootDomain (appConfig ing))) \<and>
   (ingressHost opts = [] \<and> IngressRootDomain (appConfig ing) = [] \<longrightarrow>
      ingressRoot (appConfig ing) opts =
        Inl (ErrorString ''no ingress domain provided in deploy request or configuration'') \<and>
      fst (deployIngress ing (Some opts)) =
        Return (Some (if length (ports opts) = 0
                      then ErrorString ''empty ports, nothing to expose''
                      else ErrorString
                             ''no ingress domain provided in deploy request or configuration'')) \<and>
      appliedConfigs (snd (deployIngress ing (Some opts))) = []) \<and>
   (GetClientSet (client ing) = Inr cs \<and> ports opts \<noteq> [] \<and>
    ingressRoot (appConfig ing) opts = Inr root \<longrightarrow>
      map (\<lambda>c. map Host (Rules (Spec c))) (appliedConfigs (snd (deployIngress ing (Some opts)))) =
        [[ingressPath opts root]])"
proof -
  have none: "ingressHost opts = [] \<and> IngressRootDomain (appConfig ing) = [] \<Longrightarrow>
      ingressRoot (appConfig ing) opts =
        Inl (ErrorString ''no ingress domain provided in deploy request or configuration'')"
    by (simp add: ingressRoot_def)
  show ?thesis
    using applyConfig_hosts deployIngress_applied [of ing cs opts root]
      deployIngress_no_root [OF none]
    by (simp add: ingressRoot_def)
qed

theorem root_domain_priority_witness:
  "ingressHost (exampleOptions\<lparr>ingressHost := ''edge.example.org''\<rparr>) \<noteq> [] \<and>
   IngressRootDomain (appConfig reachableIngress) \<noteq> [] \<and>
   ingressRoot (appConfig reachableIngress) (exampleOptions\<lparr>ingressHost := ''edge.example.org''\<rparr>) =
     Inr ''edge.example.org'' \<and>
   map (\<lambda>c. map Host (Rules (Spec c)))
     (appliedConfigs (snd (deployIngress reachableIngress
        (Some (exampleOptions\<lparr>ingressHost := ''edge.example.org''\<rparr>))))) =
     [[''web.prod.edge.example.org'']] \<and>
   ingressHost exampleOptions = [] \<and>
   ingressRoot (appConfig reachableIngress) exampleOptions = Inr ''apps.example.com'' \<and>
   IngressRootDomain
     (appConfig (reachableIngress\<lparr>appConfig := exampleConfig\<lparr>IngressRootDomain := []\<rparr>\<rparr>)) = [] \<and>
   fst (deployIngress (reachableIngress\<lparr>appConfig := exampleConfig\<lparr>IngressRootDomain := []\<rparr>\<rparr>)
     (Some exampleOptions)) =
     Return (Some (ErrorString ''no ingress domain provided in deploy request or configuration'')) \<and>
   appliedConfigs (snd (deployIngress
     (reachableIngress\<lparr>appConfig := exampleConfig\<lparr>IngressRootDomain := []\<rparr>\<rparr>)
     (Some exampleOptions))) = []"
  using root_domain_priority [where opts = "exampleOptions\<lparr>ingressHost := ''edge.example.org''\<rparr>"
      and ing = reachableIngress and cs = "\<lambda>ns. acceptingStore" and root = "''edge.example.org''"]
    root_domain_priority [where opts = exampleOptions and ing = reachableIngress]
    root_domain_priority [where opts = exampleOptions
      and ing = "reachableIngress\<lparr>appConfig := exampleConfig\<lparr>IngressRootDomain := []\<rparr>\<rparr>"]
  by (simp add: fixtures ingressPath_def JoinV_def)

text \<open>
  C6. The user's annotations are laid over the generated ones: every key of the user's
  mapping is in the final annotation set with the user's value, also where the generated
  set has the key; this is the annotation set of the configuration that is sent.
\<close>

theorem user_annotations_win:
  "(U k = Some v \<longrightarrow> maps_Copy G U k = Some v) \<and>
   (annotations opts k = Some v \<longrightarrow> annot opts k = Some v) \<and>
   (GetClientSet (client ing) = Inr cs \<and> ports opts \<noteq> [] \<and>
    ingressRoot (appConfig ing) opts = Inr root \<and> annotations opts k = Some v \<longrightarrow>
      map (\<lambda>c. MetaAnnotations c k) (appliedConfigs (snd (deployIngress ing (Some opts)))) =
        [Some v])"
  using deployIngress_applied [of ing cs opts root]
  by (simp add: maps_Copy_def annot_def applyConfig_def)

theorem user_annotations_win_witness:
  "GetClientSet (client reachableIngress) = Inr (\<lambda>ns. acceptingStore) \<and>
   ports exampleOptions \<noteq> [] \<and>
   ingressRoot (appConfig reachableIngress) exampleOptions = Inr ''apps.example.com'' \<and>
   getIngressAnnotations exampleOptions ''cert-manager.io/cluster-issuer'' =
     Some ''letsencrypt-prod'' \<and>
   annotations exampleOptions ''cert-manager.io/cluster-issuer'' = Some ''internal-ca'' \<and>
   annot exampleOptions ''cert-manager.io/cluster-issuer'' = Some ''internal-ca'' \<and>
   map (\<lambda>c. MetaAnnotations c ''cert-manager.io/cluster-issuer'')
     (appliedConfigs (snd (deployIngress reachableIngress (Some exampleOptions)))) =
     [Some ''internal-ca'']"
  using user_annotations_win [where opts = exampleOptions and ing = reachableIngress
      and cs = "\<lambda>ns. acceptingStore" and root = "''apps.example.com''"
      and k = "''cert-manager.io/cluster-issuer''" and v = "''internal-ca''"
      and U = "annotations exampleOptions" and G = "getIngressAnnotations exampleOptions"]
  by (simp add: fixtures ingressRoot_def getIngressAnnotations_def
      getNginxHeadersAnnotations_def clusterIssuerDefault_def)

text \<open>
  C7. With TLS enabled the configuration carries one TLS block whose hosts are exactly
  the resolved host and whose secret name is the container name followed by "-tls";
  with TLS disabled it carries no TLS block.
\<close>

theorem tls_block:
  "getTLSConfig host cName True = Some \<lparr>Hosts = [host], SecretName = cName @ ''-tls''\<rparr> \<and>
   getTLSConfig host cName False = None \<and>
   (GetClientSet (client ing) = Inr cs \<and> ports opts \<noteq> [] \<and>
    ingressRoot (appConfig ing) opts = Inr root \<longrightarrow>
      map (\<lambda>c. TLS (Spec c)) (appliedConfigs (snd (deployIngress ing (Some opts)))) =
        [if tls opts
         then [\<lparr>Hosts = [ingressPath opts root], SecretName = containerName opts @ ''-tls''\<rparr>]
         else []])"
proof -
  have "TLS (Spec (applyConfig opts p)) =
      (if tls opts then [\<lparr>Hosts = [p], SecretName = containerName opts @ ''-tls''\<rparr>] else [])"
    for p
    by (simp add: applyConfig_def ingressSpec_def getTLSConfig_def JoinV_def Let_def)
  then show ?thesis
    using deployIngress_applied [of ing cs opts root]
    by (simp add: getTLSConfig_def JoinV_def)
qed

theorem tls_block_witness:
  "GetClientSet (client reachableIngress) = Inr (\<lambda>ns. acceptingStore) \<and>
   ports exampleOptions \<noteq> [] \<and>
   ingressRoot (appConfig reachableIngress) exampleOptions = Inr ''apps.example.com'' \<and>
   tls exampleOptions \<and>
   map (\<lambda>c. TLS (Spec c))
     (appliedConfigs (snd (deployIngress reachableIngress (Some exampleOptions)))) =
     [[\<lparr>Hosts = [''web.prod.apps.example.com''], SecretName = ''web-tls''\<rparr>]] \<and>
   map (\<lambda>c. TLS (Spec c))
     (appliedConfigs (snd (deployIngress reachableIngress
        (Some (exampleOptions\<lparr>tls := False\<rparr>))))) = [[]]"
  using tls_block [where opts = exampleOptions and ing = reachableIngress
      and cs = "\<lambda>ns. acceptingStore" and root = "''apps.example.com''"]
    tls_block [where opts = "exampleOptions\<lparr>tls := False\<rparr>" and ing = reachableIngress
      and cs = "\<lambda>ns. acceptingStore" and root = "''apps.example.com''"]
  by (simp add: fixtures ingressRoot_def ingressPath_def JoinV_def)

text \<open>
  C8. Under the Alternative (traefik) flavor with TLS disabled the generated annotation
  set has exactly two keys, the ingress class (traefik) and the router entrypoints (web);
  the cluster-issuer, tls-acme, http01-ingress-class and router.tls keys are absent.
\<close>

theorem traefik_plain_web:
  assumes "traefik opts" and "\<not> tls opts"
  shows "dom (getIngressAnnotations opts) =
           {''kubernetes.io/ingress.class'', ''traefik.ingress.kubernetes.io/router.entrypoints''} \<and>
         getIngressAnnotations opts ''kubernetes.io/ingress.class'' = Some ''traefik'' \<and>
         getIngressAnnotations opts ''traefik.ingress.kubernetes.io/router.entrypoints'' =
           Some ''web'' \<and>
         getIngressAnnotations opts ''cert-manager.io/cluster-issuer'' = None \<and>
         getIngressAnnotations opts ''kubernetes.io/tls-acme'' = None \<and>
         getIngressAnnotations opts ''acme.cert-manager.io/http01-ingress-class'' = None \<and>
         getIngressAnnotations opts ''traefik.ingress.kubernetes.io/router.tls'' = None"
proof -
  have gen: "getIngressAnnotations opts =
      Map.empty(''kubernetes.io/ingress.class'' \<mapsto> ''traefik'',
                ''traefik.ingress.kubernetes.io/router.entrypoints'' \<mapsto> ''web'')"
    using assms by (simp add: getIngressAnnotations_def getTraefikHeadersAnnotations_def)
  have "dom (getIngressAnnotations opts) =
      {''kubernetes.io/ingress.class'', ''traefik.ingress.kubernetes.io/router.entrypoints''}"
    unfolding gen by auto
  then show ?thesis
    by (simp add: gen)
qed

theorem traefik_plain_web_witness:
  "traefik (exampleOptions\<lparr>traefik := True, tls := False\<rparr>) \<and>
   \<not> tls (exampleOptions\<lparr>traefik := True, tls := False\<rparr>) \<and>
   dom (getIngressAnnotations (exampleOptions\<lparr>traefik := True, tls := False\<rparr>)) =
     {''kubernetes.io/ingress.class'', ''traefik.ingress.kubernetes.io/router.entrypoints''} \<and>
   getIngressAnnotations (exampleOptions\<lparr>traefik := True, tls := False\<rparr>)
     ''cert-manager.io/cluster-issuer'' = None"
  using traefik_plain_web [of "exampleOptions\<lparr>traefik := True, tls := False\<rparr>"]
  by (simp add: exampleOptions_def)

text \<open>
  C9. The overlay of the user's annotations is idempotent: laying the user's mapping over
  the generated set a second time changes nothing, for any two mappings and so for the
  annotation set \<^verbatim>\<open>deployIngress\<close> builds.
\<close>

theorem annotation_merge_idempotent:
  "maps_Copy (maps_Copy G U) U = maps_Copy G U \<and>
   maps_Copy (annot opts) (annotations opts) = annot opts"
  by (simp add: maps_Copy_def annot_def map_add_twice)

text \<open>
  C10. Under the Standard flavor with a non-empty \<open>allowedHeaders\<close> and \<open>proxyHeaders\<close>
  unset, the generated cors-allow-headers annotation is the allowed headers joined with
  ", ", and the enable-cors, proxy-buffering and proxy-buffer-size annotations are absent.
\<close>

theorem nginx_allow_list_without_cors:
  assumes "\<not> traefik opts" and "\<not> proxyHeaders opts" and "allowedHeaders opts \<noteq> []"
  shows "getIngressAnnotations opts ''nginx.ingress.kubernetes.io/cors-allow-headers'' =
           Some (strings_Join (allowedHeaders opts) '', '') \<and>
         getIngressAnnotations opts ''nginx.ingress.kubernetes.io/enable-cors'' = None \<and>
         getIngressAnnotations opts ''nginx.ingress.kubernetes.io/proxy-buffering'' = None \<and>
         getIngressAnnotations opts ''nginx.ingress.kubernetes.io/proxy-buffer-size'' = None"
  using assms
  by (simp add: getIngressAnnotations_def getNginxHeadersAnnotations_def Let_def)

theorem nginx_allow_list_without_cors_witness:
  "\<not> traefik (exampleOptions\<lparr>proxyHeaders := False\<rparr>) \<and>
   \<not> proxyHeaders (exampleOptions\<lparr>proxyHeaders := False\<rparr>) \<and>
   allowedHeaders (exampleOptions\<lparr>proxyHeaders := False\<rparr>) \<noteq> [] \<and>
   getIngressAnnotations (exampleOptions\<lparr>proxyHeaders := False\<rparr>)
     ''nginx.ingress.kubernetes.io/cors-allow-headers'' = Some ''X-Custom'' \<and>
   getIngressAnnotations (exampleOptions\<lparr>proxyHeaders := False\<rparr>)
     ''nginx.ingress.kubernetes.io/enable-cors'' = None"
  using nginx_allow_list_without_cors [of "exampleOptions\<lparr>proxyHeaders := False\<rparr>"]
  by (simp add: exampleOptions_def)

end
